theory Spec2Isabelle
  imports Complex_Main
begin

section \<open>speed.py: the shutdown event, the version flags and the distance function\<close>

text \<open>
  The source is one Python module. Its exceptions are values of the datatype
  \<open>error\<close>: the module's own exception classes that the development refers to, the
  two built-in exceptions that the modelled functions can raise, and
  \<open>SelectionInputError\<close>, the specification's name for the error of a selection that
  is given no server list (the module declares no class of its own for it).
\<close>

datatype error =
    InvalidServerIDType
  | NoMatchedServers
  | SpeedtestBestServerFailure
  | SpeedtestMissingBestServer
  | SelectionInputError
  | AttributeError
  | ValueError

subsection \<open>FakeShutdownEvent and event\_is\_set\<close>

text \<open>
  \<^verbatim>\<open>event_is_set\<close> accepts any object. What matters of an object is which of the
  two methods it has and what they return: \<open>FakeShutdownEvent\<close> is the class of the
  source (a static \<^verbatim>\<open>isSet\<close> returning False, and \<^verbatim>\<open>is_set = isSet\<close>); \<open>Event b\<close> is a
  \<^verbatim>\<open>threading.Event\<close> whose flag is \<open>b\<close>, with both method names; \<open>LegacyEvent b\<close> is
  an event object of an old interpreter that only has \<^verbatim>\<open>isSet\<close>. A missing attribute
  raises AttributeError.
\<close>

datatype event = FakeShutdownEvent | Event bool | LegacyEvent bool

fun isSet :: "event \<Rightarrow> error + bool" where
  "isSet FakeShutdownEvent = Inr False"
| "isSet (Event b) = Inr b"
| "isSet (LegacyEvent b) = Inr b"

fun is_set :: "event \<Rightarrow> error + bool" where
  "is_set FakeShutdownEvent = isSet FakeShutdownEvent"
| "is_set (Event b) = Inr b"
| "is_set (LegacyEvent b) = Inl AttributeError"

definition event_is_set :: "event \<Rightarrow> error + bool" where
  "event_is_set ev =
     (case is_set ev of
        Inl AttributeError \<Rightarrow> isSet ev
      | r \<Rightarrow> r)"

text \<open>
  The flags a worker reads when it polls its shutdown signal \<open>n\<close> times, one call of
  \<^verbatim>\<open>event_is_set\<close> per poll.
\<close>

fun polls :: "event \<Rightarrow> nat \<Rightarrow> (error + bool) list" where
  "polls ev 0 = []"
| "polls ev (Suc n) = event_is_set ev # polls ev n"

subsection \<open>The Python-version flags\<close>

text \<open>
  \<^verbatim>\<open>sys.version_info\<close> is a tuple of five components, all but the release level
  non-negative integers; \<^verbatim>\<open>[:2]\<close> keeps the first two. Python compares tuples
  lexicographically.
\<close>

record version_info =
  major :: nat
  minor :: nat
  micro :: nat
  releaselevel :: string
  serial :: nat

definition slice2 :: "version_info \<Rightarrow> nat \<times> nat" where
  "slice2 v = (major v, minor v)"

fun tuple_ge :: "nat \<times> nat \<Rightarrow> nat \<times> nat \<Rightarrow> bool" where
  "tuple_ge (a, b) (c, d) = (if a = c then b \<ge> d else a > c)"

definition PY25PLUS :: "version_info \<Rightarrow> bool" where
  "PY25PLUS v = tuple_ge (slice2 v) (1, 5)"

definition PY26PLUS :: "version_info \<Rightarrow> bool" where
  "PY26PLUS v = tuple_ge (slice2 v) (1, 6)"

definition PY32PLUS :: "version_info \<Rightarrow> bool" where
  "PY32PLUS v = tuple_ge (slice2 v) (1, 0)"

definition PY310PLUS :: "version_info \<Rightarrow> bool" where
  "PY310PLUS v = tuple_ge (slice2 v) (2, 10)"

subsection \<open>distance\<close>

text \<open>
  Coordinates are degrees. This subsection reads the floats as real numbers with exact
  arithmetic, the reading in which the function is the haversine formula:
  \<^verbatim>\<open>math.radians\<close> multiplies by \<open>pi / 180\<close>, \<^verbatim>\<open>math.sqrt\<close> raises ValueError on a
  negative argument, and \<^verbatim>\<open>math.atan2 y x\<close> is the angle of the point \<open>(x, y)\<close> in
  \<open>(-pi, pi]\<close>, with \<^verbatim>\<open>atan2(0, 0) = 0\<close>. CPython rounds every operation, and that
  changes what the function does: at \<^verbatim>\<open>(8.0, 0.0), (-8.0, 180.0)\<close> the rounded \<open>a\<close> is
  \<^verbatim>\<open>1.0000000000000002\<close> and \<^verbatim>\<open>math.sqrt(1 - a)\<close> raises ValueError, where the exact
  \<open>a\<close> is 1. Rounding, overflow and the special values are in the reading of the next
  section, \<open>distance_fl\<close>, of which this one is the case of exact arithmetic (lemma
  \<open>distance_fl_exact\<close>).
\<close>

definition radians :: "real \<Rightarrow> real" where
  "radians x = x * (pi / 180)"

definition math_sqrt :: "real \<Rightarrow> error + real" where
  "math_sqrt x = (if x < 0 then Inl ValueError else Inr (sqrt x))"

definition atan2 :: "real \<Rightarrow> real \<Rightarrow> real" where
  "atan2 y x =
     (if 0 < x then arctan (y / x)
      else if x < 0 then (if 0 \<le> y then arctan (y / x) + pi else arctan (y / x) - pi)
      else if 0 < y then pi / 2
      else if y < 0 then - (pi / 2)
      else 0)"

definition distance :: "real \<times> real \<Rightarrow> real \<times> real \<Rightarrow> error + real" where
  "distance origin destination =
     (let (lat1, lon1) = origin;
          (lat2, lon2) = destination;
          radius = 6371;
          dlat = radians (lat2 - lat1);
          dlon = radians (lon2 - lon1);
          a = sin (dlat / 2) * sin (dlat / 2) +
              cos (radians lat1) *
              cos (radians lat2) * sin (dlon / 2) *
              sin (dlon / 2)
      in case math_sqrt a of
           Inl e \<Rightarrow> Inl e
         | Inr sa \<Rightarrow>
             (case math_sqrt (1 - a) of
                Inl e \<Rightarrow> Inl e
              | Inr sb \<Rightarrow>
                  (let c = 2 * atan2 sa sb;
                       d = radius * c
                   in Inr d)))"

text \<open>
  The haversine formula as the specification words it: the inputs are converted to
  radians first, \<open>a\<close> is built from squares, and the distance is
  \<open>6371 * 2 * atan2 (sqrt a) (sqrt (1 - a))\<close>.
\<close>

definition haversine_a :: "real \<times> real \<Rightarrow> real \<times> real \<Rightarrow> real" where
  "haversine_a origin destination =
     (let lat1 = radians (fst origin); lon1 = radians (snd origin);
          lat2 = radians (fst destination); lon2 = radians (snd destination);
          dlat = lat2 - lat1; dlon = lon2 - lon1
      in (sin (dlat / 2))\<^sup>2 + cos lat1 * cos lat2 * (sin (dlon / 2))\<^sup>2)"

definition haversine_km :: "real \<times> real \<Rightarrow> real \<times> real \<Rightarrow> real" where
  "haversine_km origin destination =
     6371 * 2 * atan2 (sqrt (haversine_a origin destination))
                      (sqrt (1 - haversine_a origin destination))"

section \<open>distance over Python floats\<close>

text \<open>
  A Python float is a finite double, one of the two infinities, or NaN. The same source
  function is read here over \<open>pyfloat\<close>. The special values follow IEEE 754 and
  CPython's \<^verbatim>\<open>math\<close> module: arithmetic propagates NaN, \<open>inf - inf\<close> and \<open>0 * inf\<close>
  are NaN; \<^verbatim>\<open>math.sin\<close> and \<^verbatim>\<open>math.cos\<close> return NaN for NaN and raise ValueError for
  an infinity; \<^verbatim>\<open>math.sqrt\<close> returns NaN for NaN, \<open>inf\<close> for \<open>inf\<close>, and raises
  ValueError for a negative number or \<open>-inf\<close>. Zeros are unsigned.
\<close>

datatype pyfloat = Fin real | PInf | NInf | NaN

text \<open>
  What CPython returns on finite arguments is not the repository's code but the
  platform's: how each arithmetic operation rounds, and which float \<^verbatim>\<open>math.radians\<close>,
  \<^verbatim>\<open>math.sin\<close>, \<^verbatim>\<open>math.cos\<close>, \<^verbatim>\<open>math.sqrt\<close> and \<^verbatim>\<open>math.atan2\<close> give. These finite
  results are a parameter \<open>u\<close> of the model, one function for each operation; a
  statement proved for every \<open>u\<close> holds whatever the rounding is.
\<close>

record pymath =
  add_r :: "real \<Rightarrow> real \<Rightarrow> real"
  sub_r :: "real \<Rightarrow> real \<Rightarrow> real"
  mul_r :: "real \<Rightarrow> real \<Rightarrow> real"
  div_r :: "real \<Rightarrow> real \<Rightarrow> real"
  radians_r :: "real \<Rightarrow> real"
  sin_r :: "real \<Rightarrow> real"
  cos_r :: "real \<Rightarrow> real"
  sqrt_r :: "real \<Rightarrow> real"
  atan2_r :: "real \<Rightarrow> real \<Rightarrow> real"

text \<open>Exact arithmetic: nothing is rounded.\<close>

definition exact_math :: pymath where
  "exact_math = \<lparr>add_r = (+), sub_r = (-), mul_r = (*), div_r = (/), radians_r = radians,
     sin_r = sin, cos_r = cos, sqrt_r = sqrt, atan2_r = atan2\<rparr>"

text \<open>
  A sum, difference or product of two finite floats overflows to an infinity when its
  exact value reaches \<open>2 ^ 1024 - 2 ^ 970\<close>, half a unit in the last place above the
  largest double (round to nearest, ties to even); below that it is the finite float
  that \<open>u\<close> gives.
\<close>

definition overflow_at :: real where
  "overflow_at = 2 ^ 1024 - 2 ^ 970"

definition rounded :: "real \<Rightarrow> real \<Rightarrow> pyfloat" where
  "rounded exact r =
     (if overflow_at \<le> exact then PInf
      else if exact \<le> - overflow_at then NInf
      else Fin r)"

fun is_inf :: "pyfloat \<Rightarrow> bool" where
  "is_inf PInf = True"
| "is_inf NInf = True"
| "is_inf _ = False"

fun is_finite :: "pyfloat \<Rightarrow> bool" where
  "is_finite (Fin x) = True"
| "is_finite _ = False"

fun fl_neg :: "pyfloat \<Rightarrow> pyfloat" where
  "fl_neg (Fin x) = Fin (- x)"
| "fl_neg PInf = NInf"
| "fl_neg NInf = PInf"
| "fl_neg NaN = NaN"

fun fl_add :: "pymath \<Rightarrow> pyfloat \<Rightarrow> pyfloat \<Rightarrow> pyfloat" where
  "fl_add u (Fin x) (Fin y) = rounded (x + y) (add_r u x y)"
| "fl_add u NaN _ = NaN"
| "fl_add u _ NaN = NaN"
| "fl_add u PInf NInf = NaN"
| "fl_add u NInf PInf = NaN"
| "fl_add u PInf _ = PInf"
| "fl_add u _ PInf = PInf"
| "fl_add u NInf _ = NInf"
| "fl_add u _ NInf = NInf"

fun fl_sub :: "pymath \<Rightarrow> pyfloat \<Rightarrow> pyfloat \<Rightarrow> pyfloat" where
  "fl_sub u (Fin x) (Fin y) = rounded (x - y) (sub_r u x y)"
| "fl_sub u x y = fl_add u x (fl_neg y)"

fun inf_times :: "pyfloat \<Rightarrow> real \<Rightarrow> pyfloat" where
  "inf_times i x = (if x = 0 then NaN else if 0 < x then i else fl_neg i)"

fun fl_mul :: "pymath \<Rightarrow> pyfloat \<Rightarrow> pyfloat \<Rightarrow> pyfloat" where
  "fl_mul u (Fin x) (Fin y) = rounded (x * y) (mul_r u x y)"
| "fl_mul u NaN _ = NaN"
| "fl_mul u _ NaN = NaN"
| "fl_mul u (Fin x) i = inf_times i x"
| "fl_mul u i (Fin y) = inf_times i y"
| "fl_mul u PInf i = i"
| "fl_mul u NInf i = fl_neg i"

text \<open>
  \<^verbatim>\<open>x / 2\<close> and \<^verbatim>\<open>math.radians\<close> shrink a finite value, so they cannot overflow; they
  keep a special value as it is.
\<close>

fun fl_half :: "pymath \<Rightarrow> pyfloat \<Rightarrow> pyfloat" where
  "fl_half u (Fin x) = Fin (div_r u x 2)"
| "fl_half u v = v"

fun fl_radians :: "pymath \<Rightarrow> pyfloat \<Rightarrow> pyfloat" where
  "fl_radians u (Fin x) = Fin (radians_r u x)"
| "fl_radians u v = v"

fun fl_sin :: "pymath \<Rightarrow> pyfloat \<Rightarrow> error + pyfloat" where
  "fl_sin u (Fin x) = Inr (Fin (sin_r u x))"
| "fl_sin u NaN = Inr NaN"
| "fl_sin u _ = Inl ValueError"

fun fl_cos :: "pymath \<Rightarrow> pyfloat \<Rightarrow> error + pyfloat" where
  "fl_cos u (Fin x) = Inr (Fin (cos_r u x))"
| "fl_cos u NaN = Inr NaN"
| "fl_cos u _ = Inl ValueError"

fun fl_sqrt :: "pymath \<Rightarrow> pyfloat \<Rightarrow> error + pyfloat" where
  "fl_sqrt u (Fin x) = (if x < 0 then Inl ValueError else Inr (Fin (sqrt_r u x)))"
| "fl_sqrt u NaN = Inr NaN"
| "fl_sqrt u PInf = Inr PInf"
| "fl_sqrt u NInf = Inl ValueError"

text \<open>
  \<^verbatim>\<open>math.atan2\<close> never raises. With an infinite argument it returns the angle of the
  matching direction (C99): \<^verbatim>\<open>atan2(inf, inf)\<close> is \<^verbatim>\<open>atan2(1, 1)\<close>, and so on.
\<close>

fun fl_atan2 :: "pymath \<Rightarrow> pyfloat \<Rightarrow> pyfloat \<Rightarrow> pyfloat" where
  "fl_atan2 u (Fin y) (Fin x) = Fin (atan2_r u y x)"
| "fl_atan2 u NaN _ = NaN"
| "fl_atan2 u _ NaN = NaN"
| "fl_atan2 u PInf PInf = Fin (atan2_r u 1 1)"
| "fl_atan2 u PInf NInf = Fin (atan2_r u 1 (- 1))"
| "fl_atan2 u PInf (Fin x) = Fin (atan2_r u 1 0)"
| "fl_atan2 u NInf PInf = Fin (atan2_r u (- 1) 1)"
| "fl_atan2 u NInf NInf = Fin (atan2_r u (- 1) (- 1))"
| "fl_atan2 u NInf (Fin x) = Fin (atan2_r u (- 1) 0)"
| "fl_atan2 u (Fin y) PInf = Fin 0"
| "fl_atan2 u (Fin y) NInf = (if 0 \<le> y then Fin (atan2_r u 0 (- 1)) else Fin (- atan2_r u 0 (- 1)))"

text \<open>An exception of a call ends the function: the rest runs only on a result.\<close>

definition and_then :: "error + 'a \<Rightarrow> ('a \<Rightarrow> error + 'b) \<Rightarrow> error + 'b" where
  "and_then r f = (case r of Inl e \<Rightarrow> Inl e | Inr v \<Rightarrow> f v)"

text \<open>
  Lines 659 to 668 of the source, call by call in Python's evaluation order (left to
  right): the value of the local \<^verbatim>\<open>a\<close>, or the exception raised on the way.
\<close>

definition haversine_term :: "pymath \<Rightarrow> pyfloat \<times> pyfloat \<Rightarrow> pyfloat \<times> pyfloat \<Rightarrow> error + pyfloat" where
  "haversine_term u origin destination =
     (let (lat1, lon1) = origin;
          (lat2, lon2) = destination;
          dlat = fl_radians u (fl_sub u lat2 lat1);
          dlon = fl_radians u (fl_sub u lon2 lon1)
      in and_then (fl_sin u (fl_half u dlat)) (\<lambda>s1.
         and_then (fl_sin u (fl_half u dlat)) (\<lambda>s2.
         and_then (fl_cos u (fl_radians u lat1)) (\<lambda>c1.
         and_then (fl_cos u (fl_radians u lat2)) (\<lambda>c2.
         and_then (fl_sin u (fl_half u dlon)) (\<lambda>s3.
         and_then (fl_sin u (fl_half u dlon)) (\<lambda>s4.
           Inr (fl_add u (fl_mul u s1 s2)
                  (fl_mul u (fl_mul u (fl_mul u c1 c2) s3) s4)))))))))"

text \<open>Lines 661 and 669 to 672: \<^verbatim>\<open>distance\<close> from \<^verbatim>\<open>a\<close> on.\<close>

definition distance_fl :: "pymath \<Rightarrow> pyfloat \<times> pyfloat \<Rightarrow> pyfloat \<times> pyfloat \<Rightarrow> error + pyfloat" where
  "distance_fl u origin destination =
     (let radius = Fin 6371
      in and_then (haversine_term u origin destination) (\<lambda>a.
         and_then (fl_sqrt u a) (\<lambda>sa.
         and_then (fl_sqrt u (fl_sub u (Fin 1) a)) (\<lambda>sb.
           let c = fl_mul u (Fin 2) (fl_atan2 u sa sb);
               d = fl_mul u radius c
           in Inr d))))"

section \<open>The selector and the measurement entry point\<close>

text \<open>
  \<^verbatim>\<open>speed.py\<close> ends after \<^verbatim>\<open>distance\<close>: the code that selects a server and the code
  that runs a transfer phase are not in the module, only the exception classes they
  raise are. The definitions of this section are therefore written from the
  specification (sections 3, 4.2, 4.4 and 7), on top of the module's \<open>distance\<close> and
  its exceptions.
\<close>

subsection \<open>Data model\<close>

text \<open>
  Modelled from the spec: the \<open>Server\<close> of section 3 (identity, endpoint, latitude,
  longitude, name, and the derived \<open>distanceKm\<close> and \<open>latencyMs\<close>, absent until
  computed); no class of the module defines it.
\<close>

record Server =
  server_id :: int
  url :: string
  lat :: real
  lon :: real
  name :: string
  distanceKm :: "real option"
  latencyMs :: "real option"

text \<open>
  Modelled from the spec: the part of \<open>Config\<close> that selection reads (the host's own
  coordinates, the number \<open>K\<close> of closest candidates, the number of probes for each
  candidate); the configuration code is not in the module.
\<close>

record Config =
  client :: "real \<times> real"
  closest_limit :: nat
  probe_count :: nat

text \<open>
  Modelled from the spec: the HTTPTransport collaborator as selection uses it. Probe
  number \<open>i\<close> of the endpoint \<open>u\<close> either fails (\<open>None\<close>) or takes some milliseconds.
\<close>

type_synonym transport = "string \<Rightarrow> nat \<Rightarrow> real option"

text \<open>
  Modelled from the spec: the explicit id filter of section 4.2, a value that is an
  integer or is not one.
\<close>

datatype id_value = IdInt int | IdOther string

text \<open>
  Modelled from the spec: a candidate is a server with its distance from the host; a
  measured candidate is (average latency, distance, server).
\<close>

type_synonym candidate = "real \<times> Server"

type_synonym measured = "real \<times> real \<times> Server"

subsection \<open>ServerSelector.select\<close>

text \<open>
  Modelled from the spec: the type check of the id filter (section 4.2, Failure), which
  comes before everything else.
\<close>

fun check_filter :: "id_value option \<Rightarrow> error + int option" where
  "check_filter None = Inr None"
| "check_filter (Some (IdInt i)) = Inr (Some i)"
| "check_filter (Some (IdOther v)) = Inl InvalidServerIDType"

text \<open>Modelled from the spec: filtering the server list by id (section 4.2, Failure).\<close>

fun matching :: "int option \<Rightarrow> Server list \<Rightarrow> Server list" where
  "matching None servers = servers"
| "matching (Some i) servers = filter (\<lambda>s. server_id s = i) servers"

text \<open>
  Modelled from the spec: step (1) of section 4.2, the distance of every server from
  the host, computed by the module's \<open>distance\<close> and stored in \<open>distanceKm\<close>.
\<close>

fun rank :: "real \<times> real \<Rightarrow> Server list \<Rightarrow> error + candidate list" where
  "rank here [] = Inr []"
| "rank here (s # ss) =
     (case distance here (lat s, lon s) of
        Inl e \<Rightarrow> Inl e
      | Inr d \<Rightarrow>
          (case rank here ss of
             Inl e \<Rightarrow> Inl e
           | Inr r \<Rightarrow> Inr ((d, s\<lparr>distanceKm := Some d\<rparr>) # r)))"

text \<open>
  Modelled from the spec: the candidate set. The input checks of sections 4.2 and 7 (a
  filter that is not an integer, no server list, no server matching the filter), then
  steps (2) and (3): sort by ascending distance and keep the closest \<open>K\<close>.
\<close>

definition candidates :: "Config \<Rightarrow> id_value option \<Rightarrow> Server list \<Rightarrow> error + candidate list" where
  "candidates cfg flt servers =
     (case check_filter flt of
        Inl e \<Rightarrow> Inl e
      | Inr wanted \<Rightarrow>
          if servers = [] then Inl SelectionInputError
          else let matched = matching wanted servers
               in if matched = [] then Inl NoMatchedServers
                  else (case rank (client cfg) matched of
                          Inl e \<Rightarrow> Inl e
                        | Inr ranked \<Rightarrow> Inr (take (closest_limit cfg) (sort_key fst ranked))))"

text \<open>
  Modelled from the spec: step (4), the \<open>n\<close> probes of one candidate, of which only the
  successful ones are kept.
\<close>

definition successes :: "transport \<Rightarrow> nat \<Rightarrow> Server \<Rightarrow> real list" where
  "successes probe n s = List.map_filter (probe (url s)) [0..<n]"

text \<open>Modelled from the spec: the average of step (5).\<close>

definition mean :: "real list \<Rightarrow> real" where
  "mean xs = sum_list xs / real (length xs)"

text \<open>
  Modelled from the spec: the average latency of a candidate over its successful probes
  only.
\<close>

definition average :: "transport \<Rightarrow> nat \<Rightarrow> Server \<Rightarrow> real" where
  "average probe n s = mean (successes probe n s)"

text \<open>
  Modelled from the spec: the order of step (6), lower average latency first, a tie
  broken by the smaller distance.
\<close>

definition le_key :: "measured \<Rightarrow> measured \<Rightarrow> bool" where
  "le_key a b \<longleftrightarrow> fst a < fst b \<or> (fst a = fst b \<and> fst (snd a) \<le> fst (snd b))"

text \<open>
  Modelled from the spec: step (5). A candidate with no successful probe is
  disqualified; the others get their \<open>latencyMs\<close>.
\<close>

fun qualifying :: "transport \<Rightarrow> nat \<Rightarrow> candidate list \<Rightarrow> measured list" where
  "qualifying probe n [] = []"
| "qualifying probe n ((d, s) # cs) =
     (if successes probe n s = [] then qualifying probe n cs
      else (average probe n s, d, s\<lparr>latencyMs := Some (average probe n s)\<rparr>) #
           qualifying probe n cs)"

text \<open>Modelled from the spec: step (6), one pass that keeps the lowest so far.\<close>

fun lowest :: "measured \<Rightarrow> measured list \<Rightarrow> measured" where
  "lowest best [] = best"
| "lowest best (m # ms) = lowest (if le_key best m then best else m) ms"

text \<open>
  Modelled from the spec: the pick among the candidates, and the failure of section
  4.2 when every candidate is disqualified.
\<close>

definition best_of :: "transport \<Rightarrow> nat \<Rightarrow> candidate list \<Rightarrow> error + Server" where
  "best_of probe n cands =
     (case qualifying probe n cands of
        [] \<Rightarrow> Inl SpeedtestBestServerFailure
      | m # ms \<Rightarrow> Inr (snd (snd (lowest m ms))))"

text \<open>
  Modelled from the spec: the probes that selection issues, \<open>n\<close> for each candidate in
  order, as (endpoint, probe number).
\<close>

definition probe_log :: "nat \<Rightarrow> candidate list \<Rightarrow> (string \<times> nat) list" where
  "probe_log n cands = concat (map (\<lambda>(d, s). map (\<lambda>i. (url s, i)) [0..<n]) cands)"

text \<open>
  Modelled from the spec: \<open>ServerSelector.select\<close> (section 4.2). It returns the
  server or the error, and the probes it issued.
\<close>

definition select ::
  "Config \<Rightarrow> transport \<Rightarrow> id_value option \<Rightarrow> Server list \<Rightarrow>
     (error + Server) \<times> (string \<times> nat) list" where
  "select cfg probe flt servers =
     (case candidates cfg flt servers of
        Inl e \<Rightarrow> (Inl e, [])
      | Inr cands \<Rightarrow>
          (best_of probe (probe_count cfg) cands, probe_log (probe_count cfg) cands))"

subsection \<open>The measurement entry point\<close>

text \<open>Modelled from the spec: the two phases of section 3 (\<open>SpeedResult\<close>).\<close>

datatype phase = Download | Upload

text \<open>Modelled from the spec: the \<open>Measurement\<close> of section 3.\<close>

record Measurement =
  totalBytes :: int
  elapsedSeconds :: real

text \<open>
  Modelled from the spec: \<open>TimedWorkerPool.run\<close> (section 4.4) seen from its caller.
  What the concurrent workers do is its own business; the caller gets a measurement or a
  phase-level error, and the transfer requests that were issued.
\<close>

type_synonym pool = "Server \<Rightarrow> phase \<Rightarrow> (error + Measurement) \<times> string list"

text \<open>
  Modelled from the spec: the state of the entry point of section 6, the selected
  server (none before selection) and the transfer requests issued so far.
\<close>

record Speedtest =
  best :: "Server option"
  transfers :: "string list"

text \<open>
  Modelled from the spec: selection stores the server it returns (sections 2 and 4.2).
\<close>

definition get_best_server ::
  "Config \<Rightarrow> transport \<Rightarrow> id_value option \<Rightarrow> Server list \<Rightarrow> Speedtest \<Rightarrow>
     (error + Server) \<times> Speedtest" where
  "get_best_server cfg probe flt servers st =
     (case fst (select cfg probe flt servers) of
        Inl e \<Rightarrow> (Inl e, st)
      | Inr s \<Rightarrow> (Inr s, st\<lparr>best := Some s\<rparr>))"

text \<open>
  Modelled from the spec: one throughput measurement (download or upload). Section 7:
  invoked before a server has been selected it is a precondition error, raised with the
  module's \<open>SpeedtestMissingBestServer\<close>; otherwise the pool runs against the server.
\<close>

definition measure_phase :: "pool \<Rightarrow> phase \<Rightarrow> Speedtest \<Rightarrow> (error + Measurement) \<times> Speedtest" where
  "measure_phase run ph st =
     (case best st of
        None \<Rightarrow> (Inl SpeedtestMissingBestServer, st)
      | Some s \<Rightarrow>
          (let (r, requests) = run s ph
           in (r, st\<lparr>transfers := transfers st @ requests\<rparr>)))"

text \<open>
  Modelled from the spec: a sequence of measurement calls by a caller who carries on
  after an error, each call on the state the previous one left.
\<close>

fun measure_all ::
  "pool \<Rightarrow> phase list \<Rightarrow> Speedtest \<Rightarrow> (error + Measurement) list \<times> Speedtest" where
  "measure_all run [] st = ([], st)"
| "measure_all run (ph # phs) st =
     (let (r, st') = measure_phase run ph st;
          (rs, st'') = measure_all run phs st'
      in (r # rs, st''))"

subsection \<open>A scenario\<close>

text \<open>
  The host is at \<open>(0, 0)\<close>. The server \<open>near_server\<close> is at the host and answers no
  probe; \<open>far_server\<close> is on the other side of the equator's circle and answers the
  first and the last of three probes in 30 ms.
\<close>

definition test_config :: Config where
  "test_config = \<lparr>client = (0, 0), closest_limit = 5, probe_count = 3\<rparr>"

definition near_server :: Server where
  "near_server = \<lparr>server_id = 1, url = ''http://near/upload.php'', lat = 0, lon = 0,
     name = ''near'', distanceKm = None, latencyMs = None\<rparr>"

definition far_server :: Server where
  "far_server = \<lparr>server_id = 2, url = ''http://far/upload.php'', lat = 0, lon = 180,
     name = ''far'', distanceKm = None, latencyMs = None\<rparr>"

definition test_probe :: transport where
  "test_probe u i = (if u = ''http://far/upload.php'' \<and> i \<noteq> 1 then Some 30 else None)"

definition test_pool :: pool where
  "test_pool s ph = (Inr \<lparr>totalBytes = 1000, elapsedSeconds = 2\<rparr>, [url s])"

section \<open>Properties of the code\<close>

subsection \<open>The shutdown event\<close>

lemma polls_FakeShutdownEvent: "polls FakeShutdownEvent n = replicate n (Inr False)"
  by (induction n) (simp_all add: event_is_set_def)

text \<open>
  C9. \<^verbatim>\<open>FakeShutdownEvent.isSet()\<close> and its alias \<^verbatim>\<open>is_set\<close> return False on every
  call, \<^verbatim>\<open>event_is_set\<close> of a FakeShutdownEvent returns False, and a worker that polls
  a FakeShutdownEvent any number of times reads False every time: it never observes a
  shutdown request through that signal.
\<close>

theorem FakeShutdownEvent_never_set:
  "isSet FakeShutdownEvent = Inr False \<and>
   is_set FakeShutdownEvent = isSet FakeShutdownEvent \<and>
   is_set FakeShutdownEvent = Inr False \<and>
   event_is_set FakeShutdownEvent = Inr False \<and>
   polls FakeShutdownEvent n = replicate n (Inr False)"
  by (simp add: event_is_set_def polls_FakeShutdownEvent)

subsection \<open>The version flags\<close>

text \<open>
  C10. The flags are computed against \<open>(1, 5)\<close>, \<open>(1, 6)\<close>, \<open>(1, 0)\<close> and
  \<open>(2, 10)\<close>, which are not the versions their names say: each flag is true of some
  version below the one it is named after (2.4 for PY25PLUS, 2.5 for PY26PLUS, 3.1 for
  PY32PLUS, 3.0 for PY310PLUS). For every version with major component at least 1,
  PY32PLUS is true; for every version with major component at least 3, all four flags
  are true whatever the minor version.
\<close>

theorem version_flags_thresholds:
  "PY25PLUS v = tuple_ge (major v, minor v) (1, 5) \<and>
   PY26PLUS v = tuple_ge (major v, minor v) (1, 6) \<and>
   PY32PLUS v = tuple_ge (major v, minor v) (1, 0) \<and>
   PY310PLUS v = tuple_ge (major v, minor v) (2, 10) \<and>
   (\<exists>w. PY25PLUS w \<and> \<not> tuple_ge (slice2 w) (2, 5)) \<and>
   (\<exists>w. PY26PLUS w \<and> \<not> tuple_ge (slice2 w) (2, 6)) \<and>
   (\<exists>w. PY32PLUS w \<and> \<not> tuple_ge (slice2 w) (3, 2)) \<and>
   (\<exists>w. PY310PLUS w \<and> \<not> tuple_ge (slice2 w) (3, 10)) \<and>
   (1 \<le> major v \<longrightarrow> PY32PLUS v) \<and>
   (3 \<le> major v \<longrightarrow> PY25PLUS v \<and> PY26PLUS v \<and> PY32PLUS v \<and> PY310PLUS v)"
proof -
  let ?V = "\<lambda>a b. \<lparr>major = a, minor = b, micro = 0, releaselevel = ''final'', serial = 0\<rparr>"
  have "PY25PLUS (?V 2 4) \<and> \<not> tuple_ge (slice2 (?V 2 4)) (2, 5)"
    by (simp add: PY25PLUS_def slice2_def)
  moreover have "PY26PLUS (?V 2 5) \<and> \<not> tuple_ge (slice2 (?V 2 5)) (2, 6)"
    by (simp add: PY26PLUS_def slice2_def)
  moreover have "PY32PLUS (?V 3 1) \<and> \<not> tuple_ge (slice2 (?V 3 1)) (3, 2)"
    by (simp add: PY32PLUS_def slice2_def)
  moreover have "PY310PLUS (?V 3 0) \<and> \<not> tuple_ge (slice2 (?V 3 0)) (3, 10)"
    by (simp add: PY310PLUS_def slice2_def)
  moreover have "1 \<le> major v \<longrightarrow> PY32PLUS v"
    by (auto simp: PY32PLUS_def slice2_def)
  moreover have "3 \<le> major v \<longrightarrow> PY25PLUS v \<and> PY26PLUS v \<and> PY32PLUS v \<and> PY310PLUS v"
    by (auto simp: PY25PLUS_def PY26PLUS_def PY32PLUS_def PY310PLUS_def slice2_def)
  ultimately show ?thesis
    by (simp only: PY25PLUS_def PY26PLUS_def PY32PLUS_def PY310PLUS_def slice2_def) blast
qed

theorem version_flags_thresholds_witness:
  "(1::nat) \<le> 3 \<and> (3::nat) \<le> 3 \<and>
   PY25PLUS \<lparr>major = 3, minor = 0, micro = 0, releaselevel = ''final'', serial = 0\<rparr> \<and>
   PY26PLUS \<lparr>major = 3, minor = 0, micro = 0, releaselevel = ''final'', serial = 0\<rparr> \<and>
   PY32PLUS \<lparr>major = 3, minor = 0, micro = 0, releaselevel = ''final'', serial = 0\<rparr> \<and>
   PY310PLUS \<lparr>major = 3, minor = 0, micro = 0, releaselevel = ''final'', serial = 0\<rparr>"
  using version_flags_thresholds
    [of "\<lparr>major = 3, minor = 0, micro = 0, releaselevel = ''final'', serial = 0\<rparr>"]
  by simp

subsection \<open>distance\<close>

lemma radians_diff: "radians (x - y) = radians x - radians y"
  by (simp add: radians_def left_diff_distrib)

lemma half_angle: "sin (x / 2) * sin (x / 2) = (1 - cos x) / (2::real)"
  using cos_double_sin [of "x / 2"] by (simp add: power2_eq_square)

text \<open>
  The term \<open>a\<close> of the formula lies between 0 and 1 for all real arguments: it is
  \<open>(1 - u * (1 - s) + s * v) / 2\<close> with \<open>u = cos (q - p)\<close>, \<open>v = cos (q + p)\<close> in
  \<open>[-1, 1]\<close> and \<open>s\<close> a squared sine in \<open>[0, 1]\<close>. So neither \<^verbatim>\<open>math.sqrt\<close> of the
  source is applied to a negative number when the arithmetic is exact.
\<close>

lemma a_bounds:
  fixes p q y :: real
  defines "a \<equiv> sin ((q - p) / 2) * sin ((q - p) / 2) + cos p * cos q * sin (y / 2) * sin (y / 2)"
  shows "0 \<le> a" and "a \<le> 1"
proof -
  define s where "s = sin (y / 2) * sin (y / 2)"
  define u where "u = cos (q - p)"
  define v where "v = cos (q + p)"
  have s0: "0 \<le> s" by (simp add: s_def)
  have s1: "s \<le> 1"
  proof -
    have "\<bar>sin (y / 2)\<bar> * \<bar>sin (y / 2)\<bar> \<le> 1 * 1"
      by (intro mult_mono) auto
    then show ?thesis by (simp add: s_def abs_mult_self_eq flip: abs_mult)
  qed
  have u: "- 1 \<le> u" "u \<le> 1" by (simp_all add: u_def)
  have v: "- 1 \<le> v" "v \<le> 1" by (simp_all add: v_def)
  have cc: "cos p * cos q = (u + v) / 2"
    using cos_times_cos [of q p] by (simp add: u_def v_def mult.commute)
  have "a = sin ((q - p) / 2) * sin ((q - p) / 2) + (cos p * cos q) * s"
    by (simp add: a_def s_def mult.assoc)
  also have "\<dots> = (1 - u) / 2 + ((u + v) / 2) * s"
    by (simp only: half_angle cc u_def)
  also have "\<dots> = (1 - u * (1 - s) + s * v) / 2"
    by (simp add: algebra_simps add_divide_distrib diff_divide_distrib)
  finally have a_eq: "a = (1 - u * (1 - s) + s * v) / 2" .
  have "u * (1 - s) \<le> 1 * (1 - s)" using u s1 by (intro mult_right_mono) auto
  moreover have "s * (- 1) \<le> s * v" using v s0 by (intro mult_left_mono) auto
  moreover have "- 1 * (1 - s) \<le> u * (1 - s)" using u s1 by (intro mult_right_mono) auto
  moreover have "s * v \<le> s * 1" using v s0 by (intro mult_left_mono) auto
  ultimately show "0 \<le> a" and "a \<le> 1" unfolding a_eq by simp_all
qed

lemma haversine_a_range:
  "0 \<le> haversine_a origin destination" "haversine_a origin destination \<le> 1"
proof -
  obtain lat1 lon1 lat2 lon2 where od: "origin = (lat1, lon1)" "destination = (lat2, lon2)"
    by (cases origin, cases destination) auto
  have "haversine_a origin destination =
      sin ((radians lat2 - radians lat1) / 2) * sin ((radians lat2 - radians lat1) / 2) +
      cos (radians lat1) * cos (radians lat2) * sin ((radians lon2 - radians lon1) / 2) *
      sin ((radians lon2 - radians lon1) / 2)"
    by (simp add: od haversine_a_def Let_def power2_eq_square mult.assoc)
  then show "0 \<le> haversine_a origin destination" "haversine_a origin destination \<le> 1"
    using a_bounds [of "radians lat2" "radians lat1" "radians lon2 - radians lon1"] by simp_all
qed

lemma distance_haversine:
  "distance origin destination = Inr (haversine_km origin destination)"
proof -
  obtain lat1 lon1 lat2 lon2 where od: "origin = (lat1, lon1)" "destination = (lat2, lon2)"
    by (cases origin, cases destination) auto
  define a where "a = haversine_a (lat1, lon1) (lat2, lon2)"
  have a: "sin (radians (lat2 - lat1) / 2) * sin (radians (lat2 - lat1) / 2) +
      cos (radians lat1) * cos (radians lat2) * sin (radians (lon2 - lon1) / 2) *
      sin (radians (lon2 - lon1) / 2) = a"
    by (simp add: a_def haversine_a_def Let_def power2_eq_square mult.assoc radians_diff)
  have "0 \<le> a" "a \<le> 1"
    using haversine_a_range [of "(lat1, lon1)" "(lat2, lon2)"] by (simp_all add: a_def)
  then show ?thesis
    by (simp add: od distance_def Let_def a math_sqrt_def haversine_km_def flip: a_def)
qed

lemma distance_same: "distance A A = Inr 0"
  by (cases A) (simp add: distance_def radians_def math_sqrt_def atan2_def)

lemma haversine_a_sym: "haversine_a A B = haversine_a B A"
proof -
  have sq: "(sin ((x - y) / 2))\<^sup>2 = (sin ((y - x) / 2))\<^sup>2" for x y :: real
  proof -
    have "(x - y) / 2 = - ((y - x) / 2)" by (simp add: diff_divide_distrib)
    then show ?thesis by (simp only: sin_minus power2_minus)
  qed
  show ?thesis
    by (simp add: haversine_a_def Let_def sq [of "radians (fst B)"] sq [of "radians (snd B)"]
        mult.commute)
qed

text \<open>
  C4. For every coordinate pair \<open>A\<close>, \<open>distance A A\<close> is 0, and for every two
  coordinate pairs \<open>A\<close> and \<open>B\<close>, \<open>distance A B = distance B A\<close>.
\<close>

theorem distance_zero_and_symmetric:
  "distance A A = Inr 0 \<and> distance A B = distance B A"
  by (simp add: distance_same distance_haversine haversine_km_def haversine_a_sym [of A B])

subsection \<open>distance over Python floats\<close>

lemma overflow_at_gt: "40030 < overflow_at"
  by (simp add: overflow_at_def)

lemma rounded_small: "\<bar>x\<bar> \<le> 40030 \<Longrightarrow> rounded x r = Fin r"
  using overflow_at_gt by (auto simp: rounded_def abs_le_iff)

text \<open>
  With exact arithmetic, and coordinates whose differences do not overflow, the float
  reading is the haversine formula: the reading of the first section.
\<close>

lemma atan2_arcsin:
  assumes "0 \<le> a" "a \<le> 1"
  shows "atan2 (sqrt a) (sqrt (1 - a)) = arcsin (sqrt a)"
proof (cases "a = 1")
  case True
  then show ?thesis by (simp add: atan2_def)
next
  case False
  with assms have lt: "a < 1" by simp
  then have pos: "0 < sqrt (1 - a)" by simp
  have s: "- 1 < sqrt a" "sqrt a < 1"
    using assms lt by (auto intro: less_le_trans [of _ 0] simp: real_sqrt_lt_1_iff)
  have "arcsin (sqrt a) = arctan (sqrt a / sqrt (1 - (sqrt a)\<^sup>2))"
    using s by (rule arcsin_arctan)
  also have "(sqrt a)\<^sup>2 = a" using assms by simp
  finally show ?thesis using pos by (simp add: atan2_def)
qed

lemma unit_product: "\<bar>x\<bar> \<le> 1 \<Longrightarrow> \<bar>y\<bar> \<le> 1 \<Longrightarrow> \<bar>x * y\<bar> \<le> (1::real)"
  using mult_mono [of "\<bar>x\<bar>" 1 "\<bar>y\<bar>" 1] by (simp add: abs_mult)

lemma distance_fl_exact:
  assumes "\<bar>lat2 - lat1\<bar> < overflow_at" "\<bar>lon2 - lon1\<bar> < overflow_at"
  shows "distance_fl exact_math (Fin lat1, Fin lon1) (Fin lat2, Fin lon2) =
     Inr (Fin (haversine_km (lat1, lon1) (lat2, lon2)))"
proof -
  define a where "a = haversine_a (lat1, lon1) (lat2, lon2)"
  define s where "s = sin (radians (lat2 - lat1) / 2)"
  define t where "t = sin (radians (lon2 - lon1) / 2)"
  define c where "c = cos (radians lat1) * cos (radians lat2)"
  have a: "s * s + c * t * t = a"
    by (simp add: a_def s_def t_def c_def haversine_a_def Let_def power2_eq_square mult.assoc
        radians_diff)
  have a01: "0 \<le> a" "a \<le> 1"
    using haversine_a_range [of "(lat1, lon1)" "(lat2, lon2)"] by (simp_all add: a_def)
  have b: "\<bar>s\<bar> \<le> 1" "\<bar>t\<bar> \<le> 1" "\<bar>c\<bar> \<le> 1"
    by (simp_all add: s_def t_def c_def unit_product)
  have sub1: "rounded (lat2 - lat1) r = Fin r" "rounded (lon2 - lon1) r = Fin r" for r
    using assms by (auto simp: rounded_def abs_less_iff)
  have m: "rounded (s * s) r = Fin r" "rounded (c * t) r = Fin r" "rounded (c * t * t) r = Fin r"
    "rounded (cos (radians lat1) * cos (radians lat2)) r = Fin r" for r
    using b unit_product [of s s] unit_product [of c t] unit_product [of "c * t" t]
    by (auto intro!: rounded_small simp: c_def)
  have hv: "haversine_term exact_math (Fin lat1, Fin lon1) (Fin lat2, Fin lon2) = Inr (Fin a)"
  proof -
    have "rounded (s * s + c * t * t) r = Fin r" for r
      using a01 by (intro rounded_small) (simp add: a)
    then show ?thesis
      using sub1 m a
      by (simp add: haversine_term_def exact_math_def and_then_def Let_def
          flip: s_def t_def c_def)
  qed
  have sq: "- 1 \<le> sqrt a" "sqrt a \<le> 1"
    using a01 by (auto intro: order_trans [of _ 0])
  have angle: "0 \<le> arcsin (sqrt a)" "arcsin (sqrt a) \<le> pi / 2"
    using arcsin_le_arcsin [of 0 "sqrt a"] arcsin_bounded [OF sq] a01 by simp_all
  have pi4: "pi \<le> 4" using pi_less_4 by simp
  have r1: "rounded (1 - a) r = Fin r" for r using a01 by (intro rounded_small) simp
  have r2: "rounded (2 * arcsin (sqrt a)) r = Fin r" for r
    using angle pi4 by (intro rounded_small) simp
  have r3: "rounded (6371 * (2 * arcsin (sqrt a))) r = Fin r" for r
    using angle pi4 by (intro rounded_small) simp
  show ?thesis
    unfolding distance_fl_def hv
    using a01 r1 r2 r3
    by (simp add: and_then_def exact_math_def atan2_arcsin haversine_km_def flip: a_def)
qed

text \<open>
  With rounding it is not (C5): whatever the rounding is, \<^verbatim>\<open>distance\<close> raises ValueError
  when the rounded \<open>a\<close> is negative or \<open>1 - a\<close> comes out negative. CPython reaches
  both on finite coordinates: \<open>a\<close> is \<^verbatim>\<open>1.0000000000000002\<close> at
  \<^verbatim>\<open>(8.0, 0.0), (-8.0, 180.0)\<close> and \<^verbatim>\<open>-2.98e-19\<close> at \<^verbatim>\<open>(90.4, 0.0), (89.6, 180.0)\<close>. The
  source does not clamp \<open>a\<close> to \<open>[0, 1]\<close>. It also raises when the difference of two
  finite latitudes overflows, as at \<^verbatim>\<open>(1e308, 0.0), (-1e308, 0.0)\<close>.
\<close>

lemma distance_fl_domain_error:
  assumes "haversine_term u origin destination = Inr (Fin x)"
    and "x < 0 \<or> sub_r u 1 x < 0"
  shows "distance_fl u origin destination = Inl ValueError"
  using assms overflow_at_gt
  by (auto simp: distance_fl_def and_then_def rounded_def)

lemma distance_fl_overflow:
  assumes "overflow_at \<le> \<bar>lat2 - lat1\<bar>"
  shows "distance_fl u (Fin lat1, lon1) (Fin lat2, lon2) = Inl ValueError"
proof -
  from assms have "is_inf (fl_sub u (Fin lat2) (Fin lat1))"
    by (auto simp: rounded_def abs_if split: if_splits)
  then show ?thesis
    by (cases "fl_sub u (Fin lat2) (Fin lat1)")
      (simp_all add: distance_fl_def haversine_term_def and_then_def del: fl_sub.simps)
qed

lemma distance_fl_special:
  "\<not> (is_finite lat1 \<and> is_finite lon1 \<and> is_finite lat2 \<and> is_finite lon2) \<Longrightarrow>
   distance_fl u (lat1, lon1) (lat2, lon2) =
     (if is_inf lat1 \<or> is_inf lat2 \<or> is_inf (fl_sub u lat2 lat1) \<or>
         is_inf (fl_sub u lon2 lon1)
      then Inl ValueError else Inr NaN)"
  by (cases lat1; cases lat2; cases lon1; cases lon2;
      simp add: distance_fl_def haversine_term_def and_then_def Let_def rounded_def)

text \<open>
  C6, as the claim states it, fails: with a NaN latitude and every other coordinate 0,
  \<^verbatim>\<open>distance\<close> signals nothing and returns NaN. (On this input every finite operation
  is exact in CPython too: \<open>0 - 0\<close>, \<open>sin 0\<close>, \<open>cos 0\<close>.)
\<close>

theorem distance_fl_nan_counterexample:
  "distance_fl exact_math (NaN, Fin 0) (Fin 0, Fin 0) = Inr NaN"
  by (simp add: distance_fl_def haversine_term_def and_then_def rounded_def overflow_at_def)

text \<open>
  C6, amended. \<^verbatim>\<open>distance\<close> has no check of its arguments. Whatever the rounding of
  the platform, for an input with a coordinate that is not finite it raises ValueError
  when a latitude is infinite or when the difference of the latitudes or of the
  longitudes is infinite (an infinite operand, or two finite ones whose difference
  overflows); in every other case (a NaN coordinate, or both longitudes the same
  infinity) it returns NaN and signals no error. Nothing is said of finite input.
\<close>

theorem distance_fl_nonfinite:
  "\<not> (is_finite lat1 \<and> is_finite lon1 \<and> is_finite lat2 \<and> is_finite lon2) \<longrightarrow>
     distance_fl u (lat1, lon1) (lat2, lon2) =
       (if is_inf lat1 \<or> is_inf lat2 \<or> is_inf (fl_sub u lat2 lat1) \<or>
           is_inf (fl_sub u lon2 lon1)
        then Inl ValueError else Inr NaN)"
  using distance_fl_special [of lat1 lon1 lat2 lon2 u] by blast

theorem distance_fl_nonfinite_witness:
  "\<not> is_finite PInf \<and> \<not> is_finite NaN \<and>
   distance_fl exact_math (PInf, Fin 0) (Fin 0, Fin 0) = Inl ValueError \<and>
   distance_fl exact_math (Fin 0, PInf) (Fin 0, PInf) = Inr NaN \<and>
   distance_fl exact_math (Fin 0, Fin 0) (Fin 0, NaN) = Inr NaN \<and>
   distance_fl exact_math (NaN, Fin (10 ^ 308)) (Fin 0, Fin (- (10 ^ 308))) = Inl ValueError"
  using distance_fl_nonfinite [of PInf "Fin 0" "Fin 0" "Fin 0" exact_math]
    distance_fl_nonfinite [of "Fin 0" PInf "Fin 0" PInf exact_math]
    distance_fl_nonfinite [of "Fin 0" "Fin 0" "Fin 0" NaN exact_math]
    distance_fl_nonfinite [of NaN "Fin (10 ^ 308)" "Fin 0" "Fin (- (10 ^ 308))" exact_math]
  by (simp add: rounded_def overflow_at_def)

section \<open>Properties of the selector and of the entry point\<close>


lemma le_key_refl: "le_key a a"
  by (simp add: le_key_def)

lemma le_key_total: "\<not> le_key a b \<Longrightarrow> le_key b a"
  by (auto simp: le_key_def)

lemma le_key_trans: "le_key a b \<Longrightarrow> le_key b c \<Longrightarrow> le_key a c"
  by (auto simp: le_key_def)

lemma lowest_mem: "lowest b ms \<in> set (b # ms)"
  by (induction ms arbitrary: b) (simp, fastforce)

lemma lowest_le_start: "le_key (lowest b ms) b"
proof (induction ms arbitrary: b)
  case Nil
  show ?case by (simp add: le_key_refl)
next
  case (Cons m ms)
  show ?case
  proof (cases "le_key b m")
    case True
    then show ?thesis using Cons.IH [of b] by simp
  next
    case False
    then have "le_key m b" by (rule le_key_total)
    moreover have "le_key (lowest m ms) m" by (rule Cons.IH)
    ultimately show ?thesis using False by (simp add: le_key_trans [of "lowest m ms" m b])
  qed
qed

lemma lowest_le: "x \<in> set (b # ms) \<Longrightarrow> le_key (lowest b ms) x"
proof (induction ms arbitrary: b)
  case Nil
  then show ?case by (simp add: le_key_refl)
next
  case (Cons m ms)
  let ?b' = "if le_key b m then b else m"
  have step: "lowest b (m # ms) = lowest ?b' ms" by simp
  have b': "le_key ?b' b" "le_key ?b' m"
    by (auto simp: le_key_refl dest: le_key_total)
  from Cons.prems consider "x = b" | "x = m" | "x \<in> set ms" by auto
  then show ?case
  proof cases
    case 1
    then show ?thesis
      unfolding step using lowest_le_start [of ?b' ms] b'(1) le_key_trans by blast
  next
    case 2
    then show ?thesis
      unfolding step using lowest_le_start [of ?b' ms] b'(2) le_key_trans by blast
  next
    case 3
    then show ?thesis unfolding step using Cons.IH [of ?b'] by simp
  qed
qed

lemma qualifying_mem:
  "m \<in> set (qualifying probe n cs) \<longleftrightarrow>
     (\<exists>d s. (d, s) \<in> set cs \<and> successes probe n s \<noteq> [] \<and>
        m = (average probe n s, d, s\<lparr>latencyMs := Some (average probe n s)\<rparr>))"
proof (induction cs)
  case Nil
  show ?case by simp
next
  case (Cons c cs)
  obtain d s where c: "c = (d, s)" by (cases c)
  show ?case
  proof (cases "successes probe n s = []")
    case True
    then show ?thesis using Cons.IH by (auto simp: c)
  next
    case False
    then show ?thesis using Cons.IH by (auto simp: c)
  qed
qed

lemma qualifying_empty:
  "qualifying probe n cs = [] \<longleftrightarrow> (\<forall>(d, s) \<in> set cs. successes probe n s = [])"
  by (induction cs) (auto split: if_splits)


lemma successes_latency: "successes probe n (s\<lparr>latencyMs := l\<rparr>) = successes probe n s"
  by (simp add: successes_def)

lemma select_best:
  assumes cands: "candidates cfg flt servers = Inr cands"
    and ex: "\<exists>(d, s) \<in> set cands. successes probe (probe_count cfg) s \<noteq> []"
  shows "\<exists>d s. (d, s) \<in> set cands \<and> successes probe (probe_count cfg) s \<noteq> [] \<and>
      fst (select cfg probe flt servers) =
        Inr (s\<lparr>latencyMs := Some (average probe (probe_count cfg) s)\<rparr>) \<and>
      (\<forall>(d', s') \<in> set cands. successes probe (probe_count cfg) s' \<noteq> [] \<longrightarrow>
         average probe (probe_count cfg) s < average probe (probe_count cfg) s' \<or>
         (average probe (probe_count cfg) s = average probe (probe_count cfg) s' \<and> d \<le> d'))"
proof -
  let ?n = "probe_count cfg"
  from ex have "qualifying probe ?n cands \<noteq> []" by (auto simp: qualifying_empty)
  then obtain m ms where q: "qualifying probe ?n cands = m # ms"
    by (cases "qualifying probe ?n cands") auto
  define w where "w = lowest m ms"
  have sel: "fst (select cfg probe flt servers) = Inr (snd (snd w))"
    by (simp add: select_def cands best_of_def q w_def)
  have "w \<in> set (qualifying probe ?n cands)" unfolding q w_def by (rule lowest_mem)
  then obtain d s where ds: "(d, s) \<in> set cands" "successes probe ?n s \<noteq> []"
      "w = (average probe ?n s, d, s\<lparr>latencyMs := Some (average probe ?n s)\<rparr>)"
    by (auto simp: qualifying_mem)
  have least: "average probe ?n s < average probe ?n s' \<or>
         (average probe ?n s = average probe ?n s' \<and> d \<le> d')"
    if "(d', s') \<in> set cands" "successes probe ?n s' \<noteq> []" for d' s'
  proof -
    let ?x = "(average probe ?n s', d', s'\<lparr>latencyMs := Some (average probe ?n s')\<rparr>)"
    have "?x \<in> set (m # ms)" using that unfolding q [symmetric] qualifying_mem by blast
    then have "le_key w ?x" unfolding w_def by (rule lowest_le)
    then show ?thesis by (simp add: le_key_def ds(3))
  qed
  show ?thesis
    using ds(1,2) sel least by (intro exI [of _ d] exI [of _ s]) (auto simp: ds(3))
qed

lemma select_returned_answers:
  assumes "fst (select cfg probe flt servers) = Inr r"
  shows "successes probe (probe_count cfg) r \<noteq> []"
proof -
  let ?n = "probe_count cfg"
  from assms obtain cands where c: "candidates cfg flt servers = Inr cands"
    by (cases "candidates cfg flt servers") (auto simp: select_def)
  with assms have b: "best_of probe ?n cands = Inr r" by (simp add: select_def)
  then obtain m ms where q: "qualifying probe ?n cands = m # ms"
    and r: "r = snd (snd (lowest m ms))"
    by (cases "qualifying probe ?n cands") (auto simp: best_of_def)
  have "lowest m ms \<in> set (qualifying probe ?n cands)" unfolding q by (rule lowest_mem)
  then obtain d s where "successes probe ?n s \<noteq> []"
      "lowest m ms = (average probe ?n s, d, s\<lparr>latencyMs := Some (average probe ?n s)\<rparr>)"
    by (auto simp: qualifying_mem)
  then show ?thesis by (simp add: r successes_latency)
qed






lemma scenario_candidates:
  "candidates test_config None [far_server, near_server] =
     Inr [(0, near_server\<lparr>distanceKm := Some 0\<rparr>),
          (6371 * pi, far_server\<lparr>distanceKm := Some (6371 * pi)\<rparr>)]"
  by (simp add: candidates_def test_config_def near_server_def far_server_def distance_def
      radians_def math_sqrt_def atan2_def not_le)

lemma scenario_near_fails: "successes test_probe 3 (near_server\<lparr>distanceKm := dk\<rparr>) = []"
  by (simp add: successes_def test_probe_def near_server_def List.map_filter_def)

lemma scenario_far_answers:
  "successes test_probe 3 (far_server\<lparr>distanceKm := dk\<rparr>) = [30, 30]"
  by (simp add: successes_def test_probe_def far_server_def List.map_filter_def upt_conv_Cons)

text \<open>
  C1. When the candidate set has a candidate with a successful probe, \<open>select\<close> returns
  a candidate with a successful probe whose average over its successful probes is the
  lowest, and among those of the same average one of smallest distance; whatever
  \<open>select\<close> returns has a successful probe, so a candidate whose probes all fail is
  never returned, however close it is.
\<close>

theorem select_lowest_latency:
  assumes "candidates cfg flt servers = Inr cands"
    and "\<exists>(d, s) \<in> set cands. successes probe (probe_count cfg) s \<noteq> []"
  shows "(\<exists>d s. (d, s) \<in> set cands \<and> successes probe (probe_count cfg) s \<noteq> [] \<and>
      fst (select cfg probe flt servers) =
        Inr (s\<lparr>latencyMs := Some (average probe (probe_count cfg) s)\<rparr>) \<and>
      (\<forall>(d', s') \<in> set cands. successes probe (probe_count cfg) s' \<noteq> [] \<longrightarrow>
         average probe (probe_count cfg) s < average probe (probe_count cfg) s' \<or>
         (average probe (probe_count cfg) s = average probe (probe_count cfg) s' \<and> d \<le> d'))) \<and>
     (\<forall>r. fst (select cfg probe flt servers) = Inr r \<longrightarrow>
        successes probe (probe_count cfg) r \<noteq> [])"
  using select_best [OF assms] select_returned_answers [of cfg probe flt servers]
  by blast

theorem select_lowest_latency_witness:
  "candidates test_config None [far_server, near_server] =
     Inr [(0, near_server\<lparr>distanceKm := Some 0\<rparr>),
          (6371 * pi, far_server\<lparr>distanceKm := Some (6371 * pi)\<rparr>)] \<and>
   successes test_probe 3 (near_server\<lparr>distanceKm := Some 0\<rparr>) = [] \<and>
   successes test_probe 3 (far_server\<lparr>distanceKm := Some (6371 * pi)\<rparr>) = [30, 30] \<and>
   fst (select test_config test_probe None [far_server, near_server]) =
     Inr (far_server\<lparr>distanceKm := Some (6371 * pi), latencyMs := Some 30\<rparr>)"
proof -
  let ?cands = "[(0, near_server\<lparr>distanceKm := Some 0\<rparr>),
          (6371 * pi, far_server\<lparr>distanceKm := Some (6371 * pi)\<rparr>)]"
  have n: "probe_count test_config = 3" by (simp add: test_config_def)
  have c: "candidates test_config None [far_server, near_server] = Inr ?cands"
    by (rule scenario_candidates)
  have e: "\<exists>(d, s) \<in> set ?cands. successes test_probe (probe_count test_config) s \<noteq> []"
    by (simp add: n scenario_far_answers)
  from select_lowest_latency [OF c e]
  obtain d s where ds: "(d, s) \<in> set ?cands" "successes test_probe 3 s \<noteq> []"
    and sel: "fst (select test_config test_probe None [far_server, near_server]) =
        Inr (s\<lparr>latencyMs := Some (average test_probe 3 s)\<rparr>)"
    unfolding n by blast
  from ds have s: "s = far_server\<lparr>distanceKm := Some (6371 * pi)\<rparr>"
    by (auto simp: scenario_near_fails)
  have "average test_probe 3 s = 30"
    by (simp add: s average_def mean_def scenario_far_answers)
  with sel s c show ?thesis
    by (simp add: scenario_near_fails scenario_far_answers)
qed



lemma measure_all_unselected:
  "best st = None \<Longrightarrow>
   measure_all run phs st = (map (\<lambda>ph. Inl SpeedtestMissingBestServer) phs, st)"
  by (induction phs) (simp_all add: measure_phase_def)

text \<open>
  C8. A throughput measurement (download or upload) invoked while no server has been
  selected fails at once with SpeedtestMissingBestServer, which is what the caller
  gets, and attempts no transfer: the state, with its list of transfer requests, is
  as it was. The same holds for every call of any sequence of measurements made
  before a selection.
\<close>

theorem measure_requires_best_server:
  assumes "best st = None"
  shows "measure_phase run ph st = (Inl SpeedtestMissingBestServer, st) \<and>
     transfers (snd (measure_phase run ph st)) = transfers st \<and>
     measure_all run phs st = (map (\<lambda>ph. Inl SpeedtestMissingBestServer) phs, st)"
  using assms by (simp add: measure_phase_def measure_all_unselected)

theorem measure_requires_best_server_witness:
  "best \<lparr>best = None, transfers = []\<rparr> = None \<and>
   measure_phase test_pool Download \<lparr>best = None, transfers = []\<rparr> =
     (Inl SpeedtestMissingBestServer, \<lparr>best = None, transfers = []\<rparr>) \<and>
   measure_all test_pool [Download, Upload] \<lparr>best = None, transfers = []\<rparr> =
     ([Inl SpeedtestMissingBestServer, Inl SpeedtestMissingBestServer],
      \<lparr>best = None, transfers = []\<rparr>)"
proof -
  have h: "best \<lparr>best = None, transfers = []\<rparr> = None" by simp
  from measure_requires_best_server [OF h, of test_pool Download "[Download, Upload]"] h
  show ?thesis by (simp del: measure_all.simps)
qed

end
